theory Spec2Isabelle
  imports Main "HOL-Library.Word"
begin

unbundle bit_operations_syntax

section \<open>The data of LitPKPExecutor\<close>

text \<open>
  The contract \<^verbatim>\<open>contracts/LitPKPExecutor.sol\<close> is an ERC-7579 executor module.
  Solidity's \<^verbatim>\<open>address\<close> is a 160-bit word, \<^verbatim>\<open>bytes32\<close> and \<^verbatim>\<open>uint256\<close>
  are 256-bit words, \<^verbatim>\<open>bytes\<close> is a list of bytes.
\<close>

type_synonym byte = "8 word"
type_synonym bytes = "byte list"
type_synonym address = "160 word"
type_synonym bytes32 = "256 word"
type_synonym uint256 = "256 word"

text \<open>\<^verbatim>\<open>struct PKPInfo\<close> (lines 33-37).\<close>

record PKPInfo =
  pkpEthAddress :: address
  pkpTokenId :: bytes32
  isInstalled :: bool

text \<open>The four events (lines 19-22), with their arguments in the declared order.\<close>

datatype event =
    ModuleInstalled address address bytes32
  | ModuleUninstalled address address
  | OperationExecuted address address uint256 bytes
  | PKPSignatureVerified address bytes32 address

text \<open>
  The contract imports \<^verbatim>\<open>ECDSA.sol\<close> and \<^verbatim>\<open>utils/ReentrancyGuard.sol\<close> of
  OpenZeppelin Contracts 5 (the path \<^verbatim>\<open>utils/ReentrancyGuard.sol\<close> exists from version 5
  on). Both revert with errors of their own, which are not errors of the contract:
  \<^verbatim>\<open>ECDSA.recover\<close> with one of the three \<^verbatim>\<open>ECDSA...\<close> errors, the modifier
  \<^verbatim>\<open>nonReentrant\<close> with \<^verbatim>\<open>ReentrancyGuardReentrantCall\<close>.
\<close>

datatype ecdsa_error =
    ECDSAInvalidSignature
  | ECDSAInvalidSignatureLength nat
  | ECDSAInvalidSignatureS bytes32

text \<open>
  The six errors the contract declares (lines 25-30), the two kinds of library error that
  pass through it, and the revert without data of a failing \<^verbatim>\<open>abi.decode\<close>.
\<close>

datatype error =
    InvalidModule
  | InvalidSignature
  | ExecutionFailed
  | ModuleNotInstalled
  | ModuleAlreadyInstalled
  | UnauthorizedPKP
  | ReentrancyGuardReentrantCall
  | RecoverError ecdsa_error
  | AbiDecodeError

text \<open>The flag \<^verbatim>\<open>_status\<close> of the inherited ReentrancyGuard.\<close>

datatype guard_status = NOT_ENTERED | ENTERED

text \<open>
  The storage of the contract: the two mappings of lines 40 and 43 (a Solidity mapping is
  total, every key that was never written reads as zero), the guard's flag, and the log of
  the events emitted so far.
\<close>

record state =
  accountPKPs :: "address \<Rightarrow> PKPInfo"
  pkpToAccount :: "address \<Rightarrow> address"
  status :: guard_status
  events :: "event list"

definition zeroPKPInfo :: PKPInfo where
  "zeroPKPInfo = \<lparr>pkpEthAddress = 0, pkpTokenId = 0, isInstalled = False\<rparr>"

text \<open>The storage of a freshly deployed contract.\<close>

definition init_state :: state where
  "init_state =
     \<lparr>accountPKPs = (\<lambda>_. zeroPKPInfo), pkpToAccount = (\<lambda>_. 0),
      status = NOT_ENTERED, events = []\<rparr>"

text \<open>
  What the contract takes from its environment: the hash function \<^verbatim>\<open>keccak256\<close>, the
  library function \<^verbatim>\<open>ECDSA.recover\<close> (it returns the signer's address or reverts),
  \<^verbatim>\<open>block.chainid\<close> and \<^verbatim>\<open>address(this)\<close>.
\<close>

record env =
  keccak256 :: "bytes \<Rightarrow> bytes32"
  recover :: "bytes32 \<Rightarrow> bytes \<Rightarrow> ecdsa_error + address"
  chainid :: uint256
  this_address :: address

definition MODULE_TYPE :: uint256 where
  "MODULE_TYPE = 2"

section \<open>Byte encodings\<close>

text \<open>
  \<open>be_bytes n w\<close> is the big-endian encoding of \<open>w\<close> on \<open>n\<close> bytes, the most significant
  byte first: \<^verbatim>\<open>abi.encodePacked\<close> writes an address on 20 bytes and a \<^verbatim>\<open>uint256\<close>
  or \<^verbatim>\<open>bytes32\<close> on 32, and copies a \<^verbatim>\<open>bytes\<close> value as it is, with no length.
\<close>

fun be_bytes :: "nat \<Rightarrow> 'a::len word \<Rightarrow> bytes" where
  "be_bytes 0 w = []"
| "be_bytes (Suc n) w = ucast (drop_bit (8 * n) w) # be_bytes n w"

definition be_word :: "bytes \<Rightarrow> 'a::len word" where
  "be_word bs = foldl (\<lambda>acc b. push_bit 8 acc OR ucast b) 0 bs"

definition packed_address :: "address \<Rightarrow> bytes" where
  "packed_address a = be_bytes 20 a"

definition packed_uint256 :: "uint256 \<Rightarrow> bytes" where
  "packed_uint256 v = be_bytes 32 v"

text \<open>
  \<^verbatim>\<open>abi.decode(data, (address, bytes32))\<close> (line 50): two words of 32 bytes. The decoder
  reverts when \<open>data\<close> is shorter than 64 bytes and when the first word is not a clean
  address (one of its upper 96 bits is set); bytes after the first 64 are ignored.
\<close>

definition abi_decode :: "bytes \<Rightarrow> (address \<times> bytes32) option" where
  "abi_decode data =
     (if length data < 64 then None
      else let w = (be_word (take 32 data) :: uint256) in
        if ucast (ucast w :: address) \<noteq> w then None
        else Some (ucast w, be_word (take 32 (drop 32 data))))"

text \<open>
  The install data as \<^verbatim>\<open>index.ts\<close> builds it, with
  \<^verbatim>\<open>encodeAbiParameters(parseAbiParameters("address, bytes32"), ...)\<close>: the address
  padded to 32 bytes, then the token id.
\<close>

definition encodeAbiParameters :: "address \<Rightarrow> bytes32 \<Rightarrow> bytes" where
  "encodeAbiParameters a t = be_bytes 32 (ucast a :: uint256) @ be_bytes 32 t"

text \<open>
  The bytes that are hashed into the operation hash (lines 124-131 and 187-194):
  \<^verbatim>\<open>abi.encodePacked(account, target, value, data, block.chainid, address(this))\<close>.
\<close>

definition encodePacked ::
  "address \<Rightarrow> address \<Rightarrow> uint256 \<Rightarrow> bytes \<Rightarrow> uint256 \<Rightarrow> address \<Rightarrow> bytes" where
  "encodePacked account target val data cid self =
     packed_address account @ packed_address target @ packed_uint256 val @ data
       @ packed_uint256 cid @ packed_address self"

definition byte_of_char :: "char \<Rightarrow> byte" where
  "byte_of_char c = of_nat (of_char c)"

text \<open>The string \<^verbatim>\<open>"\x19Ethereum Signed Message:\n32"\<close> of line 135.\<close>

definition eth_message_prefix :: bytes where
  "eth_message_prefix =
     0x19 # map byte_of_char ''Ethereum Signed Message:'' @ [0x0A] @ map byte_of_char ''32''"

section \<open>The entry points\<close>

text \<open>
  An entry point takes the storage and returns its result, \<open>Inl\<close> of the error it reverts
  with or \<open>Inr\<close> of what it returns, together with the storage at the point where it
  stopped. \<open>sender\<close> is \<^verbatim>\<open>msg.sender\<close>.
\<close>

definition onInstall :: "address \<Rightarrow> bytes \<Rightarrow> state \<Rightarrow> (error + unit) \<times> state" where
  "onInstall sender data s =
     (case abi_decode data of
        None \<Rightarrow> (Inl AbiDecodeError, s)
      | Some (pkpEthAddress', pkpTokenId') \<Rightarrow>
          if isInstalled (accountPKPs s sender) then (Inl ModuleAlreadyInstalled, s)
          else if pkpToAccount s pkpEthAddress' \<noteq> 0 then (Inl UnauthorizedPKP, s)
          else (Inr (),
            s\<lparr>accountPKPs := (accountPKPs s)(sender :=
                 \<lparr>pkpEthAddress = pkpEthAddress', pkpTokenId = pkpTokenId',
                  isInstalled = True\<rparr>),
              pkpToAccount := (pkpToAccount s)(pkpEthAddress' := sender),
              events := events s @ [ModuleInstalled sender pkpEthAddress' pkpTokenId']\<rparr>))"

definition onUninstall :: "address \<Rightarrow> bytes \<Rightarrow> state \<Rightarrow> (error + unit) \<times> state" where
  "onUninstall sender data s =
     (let pkpInfo = accountPKPs s sender in
      if \<not> isInstalled pkpInfo then (Inl ModuleNotInstalled, s)
      else let pkpEthAddress' = pkpEthAddress pkpInfo in
        (Inr (),
         s\<lparr>accountPKPs := (accountPKPs s)(sender := zeroPKPInfo),
           pkpToAccount := (pkpToAccount s)(pkpEthAddress' := 0),
           events := events s @ [ModuleUninstalled sender pkpEthAddress']\<rparr>))"

text \<open>The two views of lines 95-100 and 163-170 read the storage and return a value.\<close>

definition isModuleInstalled :: "address \<Rightarrow> uint256 \<Rightarrow> state \<Rightarrow> bool" where
  "isModuleInstalled account moduleTypeId s =
     (if moduleTypeId \<noteq> MODULE_TYPE then False
      else isInstalled (accountPKPs s account))"

definition getPKPInfo :: "address \<Rightarrow> state \<Rightarrow> address \<times> bytes32 \<times> bool" where
  "getPKPInfo account s =
     (let pkpInfo = accountPKPs s account in
      (pkpEthAddress pkpInfo, pkpTokenId pkpInfo, isInstalled pkpInfo))"

definition getOperationHash ::
  "env \<Rightarrow> address \<Rightarrow> address \<Rightarrow> uint256 \<Rightarrow> bytes \<Rightarrow> bytes32" where
  "getOperationHash env account target val data =
     keccak256 env
       (encodePacked account target val data (chainid env) (this_address env))"

text \<open>
  \<^verbatim>\<open>executeFromExecutor\<close> (lines 110-154). The modifier \<^verbatim>\<open>nonReentrant\<close> runs first:
  it reverts when the flag is \<open>ENTERED\<close>, sets it to \<open>ENTERED\<close> otherwise, and sets it
  back to \<open>NOT_ENTERED\<close> after the body. The argument \<open>call\<close> is the low-level
  \<^verbatim>\<open>target.call{value: value}(data)\<close> of line 145: it returns the success flag, the
  return data and the storage of this contract after the call, which the callee may have
  changed by calling back.
\<close>

definition executeFromExecutor ::
  "env \<Rightarrow> (address \<Rightarrow> uint256 \<Rightarrow> bytes \<Rightarrow> state \<Rightarrow> bool \<times> bytes \<times> state) \<Rightarrow>
   address \<Rightarrow> address \<Rightarrow> uint256 \<Rightarrow> bytes \<Rightarrow> bytes \<Rightarrow> state \<Rightarrow> (error + bytes) \<times> state" where
  "executeFromExecutor env call sender target val data pkpSignature s =
     (if status s = ENTERED then (Inl ReentrancyGuardReentrantCall, s)
      else
        let s1 = s\<lparr>status := ENTERED\<rparr>;
            pkpInfo = accountPKPs s1 sender
        in
        if \<not> isInstalled pkpInfo then (Inl ModuleNotInstalled, s1)
        else
          let operationHash = keccak256 env
                (encodePacked sender target val data (chainid env) (this_address env));
              ethSignedMessageHash = keccak256 env
                (eth_message_prefix @ be_bytes 32 operationHash)
          in
          case recover env ethSignedMessageHash pkpSignature of
            Inl e \<Rightarrow> (Inl (RecoverError e), s1)
          | Inr recoveredSigner \<Rightarrow>
              if recoveredSigner \<noteq> pkpEthAddress pkpInfo then (Inl InvalidSignature, s1)
              else
                let s2 = s1\<lparr>events := events s1 @
                      [PKPSignatureVerified sender operationHash (pkpEthAddress pkpInfo)]\<rparr>
                in
                case call target val data s2 of
                  (success, returnData, s3) \<Rightarrow>
                    if \<not> success then (Inl ExecutionFailed, s3)
                    else (Inr returnData,
                      s3\<lparr>events := events s3 @ [OperationExecuted sender target val data],
                         status := NOT_ENTERED\<rparr>))"

section \<open>Message calls and the callee of the forwarded call\<close>

text \<open>
  A message call that reverts leaves the storage as it was when the call began; the
  caller sees the error only.
\<close>

definition message_call ::
  "(state \<Rightarrow> (error + 'a) \<times> state) \<Rightarrow> state \<Rightarrow> (error + 'a) \<times> state" where
  "message_call f s =
     (case f s of
        (Inl e, s') \<Rightarrow> (Inl e, s)
      | (Inr r, s') \<Rightarrow> (Inr r, s'))"

text \<open>
  The forwarded call reaches code that the contract does not know. All that this code can
  do to the storage of the contract is to call its entry points, itself or through other
  contracts, under any \<^verbatim>\<open>msg.sender\<close>, and to go on according to whether a call
  succeeded. A \<open>callee\<close> is such a course of action: it ends with a success flag and its
  return data, or calls one entry point and continues with \<open>k_ok\<close> or \<open>k_fail\<close>. A call
  of \<^verbatim>\<open>executeFromExecutor\<close> carries the callee of its own forwarded call.
\<close>

datatype callee =
    Finish bool bytes
  | CallOnInstall address bytes callee callee
  | CallOnUninstall address bytes callee callee
  | CallExecute address address uint256 bytes bytes callee callee callee

text \<open>
  \<open>low_level_call\<close> is \<^verbatim>\<open>target.call\<close>: when the callee fails, what it did to the
  storage is rolled back and the flag \<open>False\<close> is returned.
\<close>

definition low_level_call ::
  "(state \<Rightarrow> bool \<times> bytes \<times> state) \<Rightarrow> state \<Rightarrow> bool \<times> bytes \<times> state" where
  "low_level_call f s =
     (case f s of
        (success, returnData, s') \<Rightarrow>
          if success then (True, returnData, s') else (False, returnData, s))"

fun run :: "env \<Rightarrow> callee \<Rightarrow> state \<Rightarrow> bool \<times> bytes \<times> state" where
  "run env (Finish success returnData) s = (success, returnData, s)"
| "run env (CallOnInstall sender data k_ok k_fail) s =
     (case message_call (onInstall sender data) s of
        (Inl e, s') \<Rightarrow> run env k_fail s'
      | (Inr u, s') \<Rightarrow> run env k_ok s')"
| "run env (CallOnUninstall sender data k_ok k_fail) s =
     (case message_call (onUninstall sender data) s of
        (Inl e, s') \<Rightarrow> run env k_fail s'
      | (Inr u, s') \<Rightarrow> run env k_ok s')"
| "run env (CallExecute sender target val data pkpSignature inner k_ok k_fail) s =
     (case message_call
             (executeFromExecutor env
                (\<lambda>t v d s1. low_level_call (\<lambda>s2. run env inner s2) s1)
                sender target val data pkpSignature) s of
        (Inl e, s') \<Rightarrow> run env k_fail s'
      | (Inr r, s') \<Rightarrow> run env k_ok s')"

text \<open>The forwarded call of an invocation whose target behaves as the callee \<open>c\<close>.\<close>

definition forwarded ::
  "env \<Rightarrow> callee \<Rightarrow> address \<Rightarrow> uint256 \<Rightarrow> bytes \<Rightarrow> state \<Rightarrow> bool \<times> bytes \<times> state" where
  "forwarded env c target val data s = low_level_call (run env c) s"

text \<open>
  A callee in which no step calls \<^verbatim>\<open>executeFromExecutor\<close>: every such step is replaced
  by what the callee does after the call has failed.
\<close>

fun without_reentry :: "callee \<Rightarrow> callee" where
  "without_reentry (Finish success returnData) = Finish success returnData"
| "without_reentry (CallOnInstall sender data k_ok k_fail) =
     CallOnInstall sender data (without_reentry k_ok) (without_reentry k_fail)"
| "without_reentry (CallOnUninstall sender data k_ok k_fail) =
     CallOnUninstall sender data (without_reentry k_ok) (without_reentry k_fail)"
| "without_reentry (CallExecute sender target val data pkpSignature inner k_ok k_fail) =
     without_reentry k_fail"

section \<open>Transactions\<close>

text \<open>
  A transaction calls one of the three state-changing entry points; the account that
  sends it is never the zero address, and neither is the sender of a call made during a
  forwarded call.
\<close>

datatype tx =
    OnInstall address bytes
  | OnUninstall address bytes
  | ExecuteFromExecutor address address uint256 bytes bytes callee

fun senders_nonzero :: "callee \<Rightarrow> bool" where
  "senders_nonzero (Finish success returnData) = True"
| "senders_nonzero (CallOnInstall sender data k_ok k_fail) =
     (sender \<noteq> 0 \<and> senders_nonzero k_ok \<and> senders_nonzero k_fail)"
| "senders_nonzero (CallOnUninstall sender data k_ok k_fail) =
     (sender \<noteq> 0 \<and> senders_nonzero k_ok \<and> senders_nonzero k_fail)"
| "senders_nonzero (CallExecute sender target val data pkpSignature inner k_ok k_fail) =
     (sender \<noteq> 0 \<and> senders_nonzero inner \<and> senders_nonzero k_ok \<and> senders_nonzero k_fail)"

fun valid_tx :: "tx \<Rightarrow> bool" where
  "valid_tx (OnInstall sender data) = (sender \<noteq> 0)"
| "valid_tx (OnUninstall sender data) = (sender \<noteq> 0)"
| "valid_tx (ExecuteFromExecutor sender target val data pkpSignature c) =
     (sender \<noteq> 0 \<and> senders_nonzero c)"

text \<open>The result of a transaction and the storage after it.\<close>

fun invoke :: "env \<Rightarrow> tx \<Rightarrow> state \<Rightarrow> (error + bytes) \<times> state" where
  "invoke env (OnInstall sender data) s =
     (case message_call (onInstall sender data) s of
        (Inl e, s') \<Rightarrow> (Inl e, s')
      | (Inr u, s') \<Rightarrow> (Inr [], s'))"
| "invoke env (OnUninstall sender data) s =
     (case message_call (onUninstall sender data) s of
        (Inl e, s') \<Rightarrow> (Inl e, s')
      | (Inr u, s') \<Rightarrow> (Inr [], s'))"
| "invoke env (ExecuteFromExecutor sender target val data pkpSignature c) s =
     message_call
       (executeFromExecutor env (forwarded env c) sender target val data pkpSignature) s"

fun transact :: "env \<Rightarrow> tx list \<Rightarrow> state \<Rightarrow> state" where
  "transact env [] s = s"
| "transact env (t # ts) s = transact env ts (snd (invoke env t s))"

text \<open>The two mappings agree with each other.\<close>

definition consistent :: "state \<Rightarrow> bool" where
  "consistent s \<longleftrightarrow>
     (\<forall>a. isInstalled (accountPKPs s a) \<longrightarrow>
        a \<noteq> 0 \<and> pkpToAccount s (pkpEthAddress (accountPKPs s a)) = a) \<and>
     (\<forall>p. pkpToAccount s p \<noteq> 0 \<longrightarrow>
        isInstalled (accountPKPs s (pkpToAccount s p)) \<and>
        pkpEthAddress (accountPKPs s (pkpToAccount s p)) = p)"

section \<open>Inputs for the examples\<close>

text \<open>
  An environment on which the entry points can be evaluated. Its \<open>recover\<close> rejects a
  signature that is not 65 bytes long with \<^verbatim>\<open>ECDSAInvalidSignatureLength\<close>, as the
  library does, and otherwise reads the signer from the first 20 bytes; its hash function
  is the length of its argument. They stand for the real functions in the examples only:
  every theorem below holds for every environment.
\<close>

definition test_env :: env where
  "test_env =
     \<lparr>keccak256 = (\<lambda>bs. of_nat (length bs)),
      recover = (\<lambda>h sg. if length sg \<noteq> 65 then Inl (ECDSAInvalidSignatureLength (length sg))
                         else Inr (be_word (take 20 sg))),
      chainid = 84532,
      this_address = 0xE0\<rparr>"

definition test_signature :: "address \<Rightarrow> bytes" where
  "test_signature signer = be_bytes 20 signer @ replicate 45 0"

text \<open>The storage after account \<open>0xA\<close> has installed the module with the signer \<open>0xB\<close>.\<close>

definition demo_state :: state where
  "demo_state = transact test_env [OnInstall 0xA (encodeAbiParameters 0xB 7)] init_state"

text \<open>
  A callee that first calls back into \<^verbatim>\<open>executeFromExecutor\<close> with a valid signature
  and then, whatever came of it, installs the module for the account \<open>0xD\<close>.
\<close>

definition demo_callee :: callee where
  "demo_callee =
     CallExecute 0xA 0xC 0 [] (test_signature 0xB) (Finish True []) (Finish True [1])
       (CallOnInstall 0xD (encodeAbiParameters 0xF 9) (Finish True [2]) (Finish True [3]))"

text \<open>
  Two installs, of \<open>0xA\<close> with the signer \<open>0xB\<close> and of \<open>0xD\<close> with the signer \<open>0xF\<close>,
  and a transaction of \<open>0xA\<close> whose callee uninstalls \<open>0xD\<close> and installs \<open>0x11\<close> with
  the signer that this has freed.
\<close>

definition demo_txs :: "tx list" where
  "demo_txs =
     [OnInstall 0xA (encodeAbiParameters 0xB 7),
      OnInstall 0xD (encodeAbiParameters 0xF 9)]"

definition demo_swap :: tx where
  "demo_swap =
     ExecuteFromExecutor 0xA 0xC 0 [] (test_signature 0xB)
       (CallOnUninstall 0xD []
          (CallOnInstall 0x11 (encodeAbiParameters 0xF 3) (Finish True []) (Finish False []))
          (Finish False []))"

text \<open>
  A forwarded call in which the account \<open>0xD\<close>, which has no registration, calls
  \<^verbatim>\<open>executeFromExecutor\<close> back; it reports success exactly when \<open>0xD\<close> has no
  registration and the call back failed with \<^verbatim>\<open>ReentrancyGuardReentrantCall\<close>.
\<close>

definition reentrant_probe ::
  "address \<Rightarrow> uint256 \<Rightarrow> bytes \<Rightarrow> state \<Rightarrow> bool \<times> bytes \<times> state" where
  "reentrant_probe target val data s =
     (\<not> isInstalled (accountPKPs s 0xD) \<and>
      fst (message_call
             (executeFromExecutor test_env (forwarded test_env (Finish True []))
                0xD 0xC 0 [] []) s) = Inl ReentrancyGuardReentrantCall,
      [], s)"

section \<open>The byte encodings are lossless\<close>

lemma length_be_bytes [simp]: "length (be_bytes n w) = n"
  by (induction n) simp_all

lemma be_step:
  "push_bit (8 * n) (ucast (ucast (drop_bit (8 * n) w) :: byte)) OR take_bit (8 * n) w
     = take_bit (8 * Suc n) (w :: 'a::len word)"
  by (rule bit_word_eqI) (auto simp: bit_simps)

lemma foldl_be_bytes:
  "foldl (\<lambda>acc b. push_bit 8 acc OR ucast b) (acc :: 'a::len word) (be_bytes n w)
     = push_bit (8 * n) acc OR take_bit (8 * n) w"
proof (induction n arbitrary: acc)
  case 0
  show ?case by simp
next
  case (Suc n)
  have "push_bit (8 * n) (push_bit 8 acc OR ucast (ucast (drop_bit (8 * n) w) :: byte)) OR take_bit (8 * n) w
      = push_bit (8 * Suc n) acc OR (push_bit (8 * n) (ucast (ucast (drop_bit (8 * n) w) :: byte)) OR take_bit (8 * n) w)"
    by (simp add: ac_simps del: mult_Suc_right)
  then show ?case
    using Suc.IH [of "push_bit 8 acc OR ucast (ucast (drop_bit (8 * n) w) :: byte)"]
    by (simp only: be_bytes.simps foldl_Cons be_step)
qed

lemma be_word_be_bytes:
  "LENGTH('a::len) \<le> 8 * n \<Longrightarrow> be_word (be_bytes n (w :: 'a word)) = w"
  by (simp add: be_word_def foldl_be_bytes take_bit_word_eq_self)

lemma be_bytes_inject:
  assumes len: "LENGTH('a::len) \<le> 8 * n" and eq: "be_bytes n (v :: 'a word) = be_bytes n w"
  shows "v = w"
proof -
  have "v = be_word (be_bytes n v)"
    using len by (simp only: be_word_be_bytes)
  also have "\<dots> = be_word (be_bytes n w)"
    by (simp only: eq)
  also have "\<dots> = w"
    using len by (simp only: be_word_be_bytes)
  finally show ?thesis .
qed

section \<open>The guard during a forwarded call\<close>

lemma status_onInstall: "status (snd (onInstall sender data s)) = status s"
  by (simp add: onInstall_def split: option.splits prod.splits)

lemma status_onUninstall: "status (snd (onUninstall sender data s)) = status s"
  by (simp add: onUninstall_def Let_def)

lemma status_message_call_onInstall:
  "status (snd (message_call (onInstall sender data) s)) = status s"
  using status_onInstall [of sender data s]
  by (auto simp: message_call_def split: prod.splits sum.splits)

lemma status_message_call_onUninstall:
  "status (snd (message_call (onUninstall sender data) s)) = status s"
  using status_onUninstall [of sender data s]
  by (auto simp: message_call_def split: prod.splits sum.splits)

lemma executeFromExecutor_entered:
  "status s = ENTERED \<Longrightarrow>
   executeFromExecutor env call sender target val data pkpSignature s
     = (Inl ReentrancyGuardReentrantCall, s)"
  by (simp add: executeFromExecutor_def)

lemma message_call_execute_entered:
  "status s = ENTERED \<Longrightarrow>
   message_call (executeFromExecutor env call sender target val data pkpSignature) s
     = (Inl ReentrancyGuardReentrantCall, s)"
  by (simp add: message_call_def executeFromExecutor_entered)

lemma run_keeps_entered:
  "status s = ENTERED \<Longrightarrow> status (snd (snd (run env c s))) = ENTERED"
proof (induction c arbitrary: s)
  case (Finish ok ret)
  then show ?case by simp
next
  case (CallOnInstall sender data k_ok k_fail)
  have st: "status (snd (message_call (onInstall sender data) s)) = ENTERED"
    using CallOnInstall.prems by (simp add: status_message_call_onInstall)
  show ?case
    using st CallOnInstall.IH
    by (cases "message_call (onInstall sender data) s") (auto split: sum.splits)
next
  case (CallOnUninstall sender data k_ok k_fail)
  have st: "status (snd (message_call (onUninstall sender data) s)) = ENTERED"
    using CallOnUninstall.prems by (simp add: status_message_call_onUninstall)
  show ?case
    using st CallOnUninstall.IH
    by (cases "message_call (onUninstall sender data) s") (auto split: sum.splits)
next
  case (CallExecute sender target val data pkpSignature inner k_ok k_fail)
  show ?case
    using CallExecute.prems CallExecute.IH(3)
    by (simp add: message_call_execute_entered)
qed

lemma run_without_reentry:
  "status s = ENTERED \<Longrightarrow> run env (without_reentry c) s = run env c s"
proof (induction c arbitrary: s)
  case (Finish ok ret)
  then show ?case by simp
next
  case (CallOnInstall sender data k_ok k_fail)
  have st: "status (snd (message_call (onInstall sender data) s)) = ENTERED"
    using CallOnInstall.prems by (simp add: status_message_call_onInstall)
  show ?case
    using st CallOnInstall.IH
    by (cases "message_call (onInstall sender data) s") (auto split: sum.splits)
next
  case (CallOnUninstall sender data k_ok k_fail)
  have st: "status (snd (message_call (onUninstall sender data) s)) = ENTERED"
    using CallOnUninstall.prems by (simp add: status_message_call_onUninstall)
  show ?case
    using st CallOnUninstall.IH
    by (cases "message_call (onUninstall sender data) s") (auto split: sum.splits)
next
  case (CallExecute sender target val data pkpSignature inner k_ok k_fail)
  show ?case
    using CallExecute.prems CallExecute.IH(3)
    by (simp add: message_call_execute_entered)
qed

lemma forwarded_without_reentry:
  "status s = ENTERED \<Longrightarrow>
   forwarded env (without_reentry c) target val data s = forwarded env c target val data s"
  by (simp add: forwarded_def low_level_call_def run_without_reentry)

lemma execute_without_reentry:
  "executeFromExecutor env (forwarded env (without_reentry c)) sender target val data pkpSignature s
   = executeFromExecutor env (forwarded env c) sender target val data pkpSignature s"
  by (simp add: executeFromExecutor_def Let_def forwarded_without_reentry split: sum.splits)

section \<open>The two mappings stay consistent\<close>

lemma abi_decode_encodeAbiParameters:
  "abi_decode (encodeAbiParameters a t) = Some (a, t)"
proof -
  have up: "ucast (ucast (a :: address) :: uint256) = a"
    by (simp add: ucast_up_ucast_id is_up)
  have w1: "(be_word (be_bytes 32 (ucast a :: uint256)) :: uint256) = ucast a"
    by (simp add: be_word_be_bytes)
  have w2: "(be_word (be_bytes 32 t) :: bytes32) = t"
    by (simp add: be_word_be_bytes)
  show ?thesis
    by (simp add: abi_decode_def encodeAbiParameters_def Let_def w1 w2 up)
qed

lemma consistent_init: "consistent init_state"
  by (simp add: consistent_def init_state_def zeroPKPInfo_def)

lemma consistent_onInstall:
  assumes "consistent s" "sender \<noteq> 0"
  shows "consistent (snd (onInstall sender data s))"
proof (cases "fst (onInstall sender data s)")
  case (Inl e)
  then have "snd (onInstall sender data s) = s"
    by (auto simp: onInstall_def split: option.splits if_splits)
  with assms show ?thesis by simp
next
  case (Inr u)
  then obtain p t where dec: "abi_decode data = Some (p, t)"
    and ni: "\<not> isInstalled (accountPKPs s sender)" and free: "pkpToAccount s p = 0"
    by (auto simp: onInstall_def split: option.splits if_splits)
  have s': "snd (onInstall sender data s) =
     s\<lparr>accountPKPs := (accountPKPs s)(sender :=
          \<lparr>pkpEthAddress = p, pkpTokenId = t, isInstalled = True\<rparr>),
       pkpToAccount := (pkpToAccount s)(p := sender),
       events := events s @ [ModuleInstalled sender p t]\<rparr>"
    using dec ni free by (simp add: onInstall_def)
  show ?thesis
    unfolding s' using assms ni free
    by (auto simp: consistent_def)
qed

lemma consistent_onUninstall:
  assumes "consistent s"
  shows "consistent (snd (onUninstall sender data s))"
proof (cases "isInstalled (accountPKPs s sender)")
  case False
  then have "snd (onUninstall sender data s) = s"
    by (simp add: onUninstall_def Let_def)
  with assms show ?thesis by simp
next
  case True
  have s': "snd (onUninstall sender data s) =
     s\<lparr>accountPKPs := (accountPKPs s)(sender := zeroPKPInfo),
       pkpToAccount := (pkpToAccount s)(pkpEthAddress (accountPKPs s sender) := 0),
       events := events s @ [ModuleUninstalled sender (pkpEthAddress (accountPKPs s sender))]\<rparr>"
    using True by (simp add: onUninstall_def Let_def)
  show ?thesis
    unfolding s' using assms True
    by (auto simp: consistent_def zeroPKPInfo_def) metis
qed


lemma consistent_status [simp]: "consistent (s\<lparr>status := x\<rparr>) = consistent s"
  by (simp add: consistent_def)

lemma consistent_events [simp]: "consistent (s\<lparr>events := x\<rparr>) = consistent s"
  by (simp add: consistent_def)

lemma consistent_message_call:
  "consistent s \<Longrightarrow> consistent (snd (f s)) \<Longrightarrow> consistent (snd (message_call f s))"
  by (cases "f s") (auto simp: message_call_def split: sum.splits)

lemma consistent_low_level_call:
  "consistent s \<Longrightarrow> consistent (snd (snd (f s))) \<Longrightarrow>
   consistent (snd (snd (low_level_call f s)))"
  by (cases "f s") (auto simp: low_level_call_def)

lemma consistent_executeFromExecutor:
  assumes "consistent s"
    and "\<And>s'. consistent s' \<Longrightarrow> consistent (snd (snd (call target val data s')))"
  shows "consistent (snd (executeFromExecutor env call sender target val data pkpSignature s))"
proof -
  define s2 where "s2 = s\<lparr>status := ENTERED,
    events := events s @ [PKPSignatureVerified sender
      (keccak256 env (encodePacked sender target val data (chainid env) (this_address env)))
      (pkpEthAddress (accountPKPs s sender))]\<rparr>"
  have "consistent s2"
    using assms(1) by (simp add: s2_def)
  then have "consistent (snd (snd (call target val data s2)))"
    by (rule assms(2))
  then show ?thesis
    using assms(1)
    by (auto simp: executeFromExecutor_def Let_def s2_def split: sum.splits prod.splits)
qed

lemma consistent_run:
  "consistent s \<Longrightarrow> senders_nonzero c \<Longrightarrow> consistent (snd (snd (run env c s)))"
proof (induction c arbitrary: s)
  case (Finish ok ret)
  then show ?case by simp
next
  case (CallOnInstall sender data k_ok k_fail)
  have "consistent (snd (message_call (onInstall sender data) s))"
    using CallOnInstall.prems by (simp add: consistent_message_call consistent_onInstall)
  then show ?case
    using CallOnInstall.IH CallOnInstall.prems(2)
    by (cases "message_call (onInstall sender data) s") (auto split: sum.splits)
next
  case (CallOnUninstall sender data k_ok k_fail)
  have "consistent (snd (message_call (onUninstall sender data) s))"
    using CallOnUninstall.prems by (simp add: consistent_message_call consistent_onUninstall)
  then show ?case
    using CallOnUninstall.IH CallOnUninstall.prems(2)
    by (cases "message_call (onUninstall sender data) s") (auto split: sum.splits)
next
  case (CallExecute sender target val data pkpSignature inner k_ok k_fail)
  let ?f = "executeFromExecutor env (\<lambda>t v d s1. low_level_call (\<lambda>s2. run env inner s2) s1)
              sender target val data pkpSignature"
  have inner: "\<And>s'. consistent s' \<Longrightarrow>
      consistent (snd (snd (low_level_call (\<lambda>s2. run env inner s2) s')))"
    using CallExecute.IH(1) CallExecute.prems(2) by (simp add: consistent_low_level_call)
  have "consistent (snd (?f s))"
    using CallExecute.prems(1) inner by (rule consistent_executeFromExecutor)
  then have "consistent (snd (message_call ?f s))"
    using CallExecute.prems(1) by (simp add: consistent_message_call)
  then show ?case
    using CallExecute.IH(2,3) CallExecute.prems(2)
    by (cases "message_call ?f s") (auto split: sum.splits)
qed

lemma consistent_invoke:
  assumes "consistent s" "valid_tx t"
  shows "consistent (snd (invoke env t s))"
proof (cases t)
  case (OnInstall sender data)
  have "consistent (snd (message_call (onInstall sender data) s))"
    using assms OnInstall by (simp add: consistent_message_call consistent_onInstall)
  then show ?thesis
    using OnInstall by (cases "message_call (onInstall sender data) s") (auto split: sum.splits)
next
  case (OnUninstall sender data)
  have "consistent (snd (message_call (onUninstall sender data) s))"
    using assms OnUninstall by (simp add: consistent_message_call consistent_onUninstall)
  then show ?thesis
    using OnUninstall by (cases "message_call (onUninstall sender data) s") (auto split: sum.splits)
next
  case (ExecuteFromExecutor sender target val data pkpSignature c)
  have fw: "\<And>s'. consistent s' \<Longrightarrow> consistent (snd (snd (forwarded env c target val data s')))"
    using assms(2) ExecuteFromExecutor
    by (simp add: forwarded_def consistent_low_level_call consistent_run)
  have "consistent (snd (executeFromExecutor env (forwarded env c) sender target val data pkpSignature s))"
    using assms(1) fw by (rule consistent_executeFromExecutor)
  then show ?thesis
    using assms(1) ExecuteFromExecutor by (simp add: consistent_message_call)
qed

lemma consistent_transact:
  "consistent s \<Longrightarrow> list_all valid_tx ts \<Longrightarrow> consistent (transact env ts s)"
  by (induction ts arbitrary: s) (simp_all add: consistent_invoke)

section \<open>The guard between transactions, and the examples evaluated\<close>

lemma status_invoke:
  assumes ne: "status s = NOT_ENTERED"
  shows "status (snd (invoke env t s)) = NOT_ENTERED"
proof (cases t)
  case (OnInstall sender data)
  then show ?thesis
    using ne status_message_call_onInstall [of sender data s]
    by (cases "message_call (onInstall sender data) s") (auto split: sum.splits)
next
  case (OnUninstall sender data)
  then show ?thesis
    using ne status_message_call_onUninstall [of sender data s]
    by (cases "message_call (onUninstall sender data) s") (auto split: sum.splits)
next
  case (ExecuteFromExecutor sender target val data pkpSignature c)
  then show ?thesis
    using ne
    by (auto simp: message_call_def executeFromExecutor_def Let_def
        split: sum.splits prod.splits if_splits)
qed

lemma status_transact:
  "status s = NOT_ENTERED \<Longrightarrow> status (transact env ts s) = NOT_ENTERED"
  by (induction ts arbitrary: s) (simp_all add: status_invoke)

lemma recover_test_signature:
  "recover test_env h (test_signature a) = Inr a"
  by (simp add: test_env_def test_signature_def be_word_be_bytes)

lemma demo_state_eq:
  "demo_state =
     \<lparr>accountPKPs = (\<lambda>_. zeroPKPInfo)
        (0xA := \<lparr>pkpEthAddress = 0xB, pkpTokenId = 7, isInstalled = True\<rparr>),
      pkpToAccount = (\<lambda>_. 0)(0xB := 0xA),
      status = NOT_ENTERED,
      events = [ModuleInstalled 0xA 0xB 7]\<rparr>"
  by (simp add: demo_state_def message_call_def onInstall_def abi_decode_encodeAbiParameters
      init_state_def zeroPKPInfo_def)

lemma transact_demo_txs:
  "transact test_env demo_txs init_state =
     \<lparr>accountPKPs = (\<lambda>_. zeroPKPInfo)
        (0xA := \<lparr>pkpEthAddress = 0xB, pkpTokenId = 7, isInstalled = True\<rparr>,
         0xD := \<lparr>pkpEthAddress = 0xF, pkpTokenId = 9, isInstalled = True\<rparr>),
      pkpToAccount = (\<lambda>_. 0)(0xB := 0xA, 0xF := 0xD),
      status = NOT_ENTERED,
      events = [ModuleInstalled 0xA 0xB 7, ModuleInstalled 0xD 0xF 9]\<rparr>"
  by (simp add: demo_txs_def message_call_def onInstall_def abi_decode_encodeAbiParameters
      init_state_def zeroPKPInfo_def)

lemma transact_demo_swap:
  "transact test_env (demo_txs @ [demo_swap]) init_state =
     \<lparr>accountPKPs = (\<lambda>_. zeroPKPInfo)
        (0xA := \<lparr>pkpEthAddress = 0xB, pkpTokenId = 7, isInstalled = True\<rparr>,
         0xD := zeroPKPInfo,
         0x11 := \<lparr>pkpEthAddress = 0xF, pkpTokenId = 3, isInstalled = True\<rparr>),
      pkpToAccount = (\<lambda>_. 0)(0xB := 0xA, 0xF := 0x11),
      status = NOT_ENTERED,
      events = [ModuleInstalled 0xA 0xB 7, ModuleInstalled 0xD 0xF 9,
        PKPSignatureVerified 0xA (getOperationHash test_env 0xA 0xC 0 []) 0xB,
        ModuleUninstalled 0xD 0xF, ModuleInstalled 0x11 0xF 3,
        OperationExecuted 0xA 0xC 0 []]\<rparr>"
  by (simp add: demo_txs_def demo_swap_def message_call_def onInstall_def onUninstall_def
      abi_decode_encodeAbiParameters init_state_def zeroPKPInfo_def executeFromExecutor_def
      Let_def recover_test_signature forwarded_def low_level_call_def getOperationHash_def)

section \<open>Re-entrancy\<close>

text \<open>
  Claim C1. While an invocation of \<^verbatim>\<open>executeFromExecutor\<close> is in its forwarded call
  the guard's flag is \<open>ENTERED\<close>, and it stays so whatever the callee does. An invocation
  of \<^verbatim>\<open>executeFromExecutor\<close> that begins under this flag, by whatever sender and with
  whatever arguments, reverts at once with \<^verbatim>\<open>ReentrancyGuardReentrantCall\<close> and leaves
  the storage as it found it, so the callee goes on from its failure branch in the same
  storage. Hence the outer invocation returns the same result and the same storage as the
  one whose callee makes none of these attempts.
\<close>

theorem reentrant_call_fails_without_effect:
  "(status s = ENTERED \<longrightarrow>
      message_call (executeFromExecutor env call sender' target' val' data' pkpSignature') s
        = (Inl ReentrancyGuardReentrantCall, s) \<and>
      run env (CallExecute sender' target' val' data' pkpSignature' inner k_ok k_fail) s
        = run env k_fail s \<and>
      status (snd (snd (run env c s))) = ENTERED) \<and>
   invoke env (ExecuteFromExecutor sender target val data pkpSignature c) s0
     = invoke env (ExecuteFromExecutor sender target val data pkpSignature (without_reentry c)) s0"
proof -
  have outer: "invoke env (ExecuteFromExecutor sender target val data pkpSignature c) s0
     = invoke env (ExecuteFromExecutor sender target val data pkpSignature (without_reentry c)) s0"
    by (simp add: message_call_def execute_without_reentry)
  show ?thesis
    using outer by (simp add: message_call_execute_entered run_keeps_entered)
qed

theorem reentrant_call_fails_without_effect_witness:
  "status (demo_state\<lparr>status := ENTERED\<rparr>) = ENTERED \<and>
   message_call (executeFromExecutor test_env (forwarded test_env (Finish True []))
       0xA 0xC 0 [] (test_signature 0xB)) (demo_state\<lparr>status := ENTERED\<rparr>)
     = (Inl ReentrancyGuardReentrantCall, demo_state\<lparr>status := ENTERED\<rparr>) \<and>
   invoke test_env (ExecuteFromExecutor 0xA 0xC 0 [] (test_signature 0xB) demo_callee) demo_state
     = invoke test_env (ExecuteFromExecutor 0xA 0xC 0 [] (test_signature 0xB)
         (CallOnInstall 0xD (encodeAbiParameters 0xF 9) (Finish True [2]) (Finish True [3])))
         demo_state \<and>
   fst (invoke test_env (ExecuteFromExecutor 0xA 0xC 0 [] (test_signature 0xB) demo_callee)
     demo_state) = Inr [2]"
proof -
  have e: "status (demo_state\<lparr>status := ENTERED\<rparr>) = ENTERED"
    by simp
  have r: "fst (invoke test_env (ExecuteFromExecutor 0xA 0xC 0 [] (test_signature 0xB)
       (CallOnInstall 0xD (encodeAbiParameters 0xF 9) (Finish True [2]) (Finish True [3])))
       demo_state) = Inr [2]"
    by (simp add: demo_state_eq message_call_def executeFromExecutor_def Let_def
        recover_test_signature forwarded_def low_level_call_def onInstall_def
        abi_decode_encodeAbiParameters zeroPKPInfo_def)
  show ?thesis
    using e r
      reentrant_call_fails_without_effect [where s = "demo_state\<lparr>status := ENTERED\<rparr>"
        and env = test_env and call = "forwarded test_env (Finish True [])"
        and sender' = "0xA" and target' = "0xC" and val' = 0 and data' = "[]"
        and pkpSignature' = "test_signature 0xB" and c = demo_callee
        and sender = "0xA" and target = "0xC" and val = 0 and data = "[]"
        and pkpSignature = "test_signature 0xB" and ?s0.0 = demo_state]
    by (simp add: demo_callee_def)
qed

section \<open>Signature verification\<close>

text \<open>
  Claim C2, as the specification states it, does not hold: when \<^verbatim>\<open>ECDSA.recover\<close>
  fails, the library reverts with an error of its own and the contract passes it on; the
  error \<^verbatim>\<open>InvalidSignature\<close> of the contract is not raised. The account \<open>0xA\<close> has
  installed the module, the guard is open, the signature is empty: recovery fails for its
  length and the invocation fails with the library's
  \<^verbatim>\<open>ECDSAInvalidSignatureLength\<close>.
\<close>

theorem malformed_signature_not_InvalidSignature:
  "isInstalled (accountPKPs demo_state 0xA) \<and>
   status demo_state = NOT_ENTERED \<and>
   recover test_env
     (keccak256 test_env
        (eth_message_prefix @ be_bytes 32 (getOperationHash test_env 0xA 0xC 0 []))) []
     = Inl (ECDSAInvalidSignatureLength 0) \<and>
   fst (invoke test_env (ExecuteFromExecutor 0xA 0xC 0 [] [] (Finish True [])) demo_state)
     = Inl (RecoverError (ECDSAInvalidSignatureLength 0)) \<and>
   fst (invoke test_env (ExecuteFromExecutor 0xA 0xC 0 [] [] (Finish True [])) demo_state)
     \<noteq> Inl InvalidSignature"
  by (simp add: demo_state_eq test_env_def message_call_def executeFromExecutor_def Let_def)

text \<open>
  Claim C2, amended. For an account that has installed the module and an invocation that
  is not re-entrant, \<^verbatim>\<open>executeFromExecutor\<close> fails with \<^verbatim>\<open>InvalidSignature\<close> if
  and only if recovery over the prefixed digest of the operation hash succeeds and the
  recovered address differs from the registered \<^verbatim>\<open>pkpEthAddress\<close>; when recovery fails,
  the invocation fails with the library's error; when the recovered address is the
  registered one, the event is logged, the call is forwarded, and the outcome is that of
  the forwarded call.
\<close>

theorem InvalidSignature_iff_signer_mismatch:
  assumes inst: "isInstalled (accountPKPs s sender)"
    and ne: "status s = NOT_ENTERED"
    and dg: "digest = keccak256 env
      (eth_message_prefix @ be_bytes 32 (getOperationHash env sender target val data))"
  shows "(fst (executeFromExecutor env call sender target val data pkpSignature s)
            = Inl InvalidSignature
          \<longleftrightarrow> (case recover env digest pkpSignature of
                 Inl e \<Rightarrow> False
               | Inr recoveredSigner \<Rightarrow>
                   recoveredSigner \<noteq> pkpEthAddress (accountPKPs s sender))) \<and>
         (\<forall>e. recover env digest pkpSignature = Inl e \<longrightarrow>
            fst (executeFromExecutor env call sender target val data pkpSignature s)
              = Inl (RecoverError e)) \<and>
         (recover env digest pkpSignature = Inr (pkpEthAddress (accountPKPs s sender)) \<longrightarrow>
            fst (executeFromExecutor env call sender target val data pkpSignature s)
              = (case call target val data
                    (s\<lparr>status := ENTERED,
                       events := events s @
                         [PKPSignatureVerified sender
                            (getOperationHash env sender target val data)
                            (pkpEthAddress (accountPKPs s sender))]\<rparr>) of
                   (success, returnData, s3) \<Rightarrow>
                     if success then Inr returnData else Inl ExecutionFailed))"
  using inst ne
  by (cases "recover env digest pkpSignature")
     (auto simp: dg executeFromExecutor_def getOperationHash_def Let_def split: prod.splits)

theorem InvalidSignature_iff_signer_mismatch_witness:
  "isInstalled (accountPKPs demo_state 0xA) \<and>
   status demo_state = NOT_ENTERED \<and>
   recover test_env
     (keccak256 test_env
        (eth_message_prefix @ be_bytes 32 (getOperationHash test_env 0xA 0xC 0 [])))
     (test_signature 0xDD) = Inr 0xDD \<and>
   fst (executeFromExecutor test_env (forwarded test_env (Finish True [])) 0xA 0xC 0 []
          (test_signature 0xDD) demo_state) = Inl InvalidSignature"
proof -
  have i: "isInstalled (accountPKPs demo_state 0xA)"
    by (simp add: demo_state_eq)
  have n: "status demo_state = NOT_ENTERED"
    by (simp add: demo_state_eq)
  have p: "pkpEthAddress (accountPKPs demo_state 0xA) = 0xB"
    by (simp add: demo_state_eq)
  show ?thesis
    using i n p
      InvalidSignature_iff_signer_mismatch [OF i n refl, where env = test_env
        and target = "0xC" and val = 0 and data = "[]"
        and call = "forwarded test_env (Finish True [])"
        and pkpSignature = "test_signature 0xDD"]
    by (simp add: recover_test_signature)
qed

section \<open>The operation hash\<close>

lemma encodePacked_inject:
  assumes "encodePacked account target val data cid self
             = encodePacked account' target' val' data' cid' self'"
  shows "account = account' \<and> target = target' \<and> val = val' \<and> data = data' \<and>
         cid = cid' \<and> self = self'"
proof -
  let ?r = "packed_address target @ packed_uint256 val @ data @ packed_uint256 cid
              @ packed_address self"
  let ?r' = "packed_address target' @ packed_uint256 val' @ data' @ packed_uint256 cid'
              @ packed_address self'"
  have 1: "packed_address account = packed_address account' \<and> ?r = ?r'"
    using assms by (simp add: encodePacked_def packed_address_def)
  have 2: "packed_address target = packed_address target' \<and>
           packed_uint256 val @ data @ packed_uint256 cid @ packed_address self
             = packed_uint256 val' @ data' @ packed_uint256 cid' @ packed_address self'"
    using 1 by (simp add: packed_address_def)
  have 3: "packed_uint256 val = packed_uint256 val' \<and>
           data @ packed_uint256 cid @ packed_address self
             = data' @ packed_uint256 cid' @ packed_address self'"
    using 2 by (simp add: packed_uint256_def)
  have 4: "data = data' \<and>
           packed_uint256 cid @ packed_address self = packed_uint256 cid' @ packed_address self'"
    using 3 by (simp add: packed_uint256_def packed_address_def)
  have 5: "packed_uint256 cid = packed_uint256 cid' \<and> packed_address self = packed_address self'"
    using 4 by (simp add: packed_uint256_def)
  have a: "account = account'"
    using 1 by (auto simp: packed_address_def intro: be_bytes_inject [where n = 20])
  have t: "target = target'"
    using 2 by (auto simp: packed_address_def intro: be_bytes_inject [where n = 20])
  have v: "val = val'"
    using 3 by (auto simp: packed_uint256_def intro: be_bytes_inject [where n = 32])
  have c: "cid = cid'"
    using 5 by (auto simp: packed_uint256_def intro: be_bytes_inject [where n = 32])
  have m: "self = self'"
    using 5 by (auto simp: packed_address_def intro: be_bytes_inject [where n = 20])
  show ?thesis
    using a t v c m 4 by simp
qed

text \<open>
  Claim C3. \<^verbatim>\<open>getOperationHash\<close> is the hash of the packed encoding of the account,
  the target, the value, the data, the chain id and the address of the module, and of
  nothing else: two environments with the same hash function, chain id and module address
  give the same hash. The encoding is unambiguous: for one chain id and one module
  address, two tuples with the same encoding are the same tuple. The data is the only
  field of variable length, so no boundary can shift.
\<close>

theorem operation_encoding_unambiguous:
  "getOperationHash env account target val data
     = keccak256 env
         (encodePacked account target val data (chainid env) (this_address env)) \<and>
   (keccak256 env' = keccak256 env \<and> chainid env' = chainid env \<and>
      this_address env' = this_address env \<longrightarrow>
    getOperationHash env' account target val data
      = getOperationHash env account target val data) \<and>
   (encodePacked account target val data cid self
      = encodePacked account' target' val' data' cid self \<longrightarrow>
    account = account' \<and> target = target' \<and> val = val' \<and> data = data')"
  using encodePacked_inject [of account target val data cid self account' target' val' data'
      cid self]
  by (simp add: getOperationHash_def)

theorem operation_encoding_unambiguous_witness:
  "encodePacked 0xA 0xC 0 [] 84532 0xE0 = encodePacked 0xA 0xC 0 [] 84532 0xE0 \<and>
   encodePacked 0xA 0xC 0 [] 84532 0xE0 \<noteq> encodePacked 0xA 0xC 1 [] 84532 0xE0 \<and>
   encodePacked 0xA 0xC 0 [1] 84532 0xE0 \<noteq> encodePacked 0xA 0xC 0 [] 84532 0xE0 \<and>
   getOperationHash test_env 0xA 0xC 0 []
     = keccak256 test_env (encodePacked 0xA 0xC 0 [] 84532 0xE0)"
proof -
  have d: "(0 :: uint256) \<noteq> 1" "[1 :: byte] \<noteq> []"
    by simp_all
  show ?thesis
    using d
      operation_encoding_unambiguous [where env = test_env and env' = test_env
        and account = "0xA" and target = "0xC" and val = 0 and data = "[]"
        and cid = 84532 and self = "0xE0"
        and account' = "0xA" and target' = "0xC" and val' = 1 and data' = "[]"]
      operation_encoding_unambiguous [where env = test_env and env' = test_env
        and account = "0xA" and target = "0xC" and val = 0 and data = "[1]"
        and cid = 84532 and self = "0xE0"
        and account' = "0xA" and target' = "0xC" and val' = 0 and data' = "[]"]
    by (auto simp: test_env_def)
qed

section \<open>One account for each signer\<close>

lemma consistent_reachable:
  "list_all valid_tx ts \<Longrightarrow> consistent (transact env ts init_state)"
  by (simp add: consistent_transact consistent_init)

text \<open>
  Claim C4. In every storage reached by transactions, if the account \<open>A\<close> is installed
  with the signer \<open>S\<close> (it has installed with \<open>S\<close> and has not uninstalled since), then
  an install by another account \<open>B\<close>, not installed, with data that names \<open>S\<close> fails with
  \<^verbatim>\<open>UnauthorizedPKP\<close>, and \<^verbatim>\<open>isModuleInstalled(B, 2)\<close> is false afterwards.
\<close>

theorem claimed_signer_rejected:
  assumes valid: "list_all valid_tx ts"
    and s: "s = transact env ts init_state"
    and instA: "isInstalled (accountPKPs s A)"
    and signerA: "pkpEthAddress (accountPKPs s A) = S"
    and diff: "A \<noteq> B"
    and notB: "\<not> isInstalled (accountPKPs s B)"
    and dec: "abi_decode data = Some (S, k)"
  shows "onInstall B data s = (Inl UnauthorizedPKP, s) \<and>
         invoke env (OnInstall B data) s = (Inl UnauthorizedPKP, s) \<and>
         isModuleInstalled B MODULE_TYPE (snd (invoke env (OnInstall B data) s)) = False"
proof -
  have "consistent s"
    using valid s by (simp add: consistent_reachable)
  then have "pkpToAccount s S = A" and "A \<noteq> 0"
    using instA signerA by (auto simp: consistent_def)
  then have r: "onInstall B data s = (Inl UnauthorizedPKP, s)"
    using notB dec by (simp add: onInstall_def)
  show ?thesis
    using r notB by (simp add: message_call_def isModuleInstalled_def)
qed

theorem claimed_signer_rejected_witness:
  "list_all valid_tx [OnInstall 0xA (encodeAbiParameters 0xB 7)] \<and>
   isInstalled (accountPKPs demo_state 0xA) \<and>
   pkpEthAddress (accountPKPs demo_state 0xA) = 0xB \<and>
   (0xA :: address) \<noteq> 0xD \<and>
   \<not> isInstalled (accountPKPs demo_state 0xD) \<and>
   abi_decode (encodeAbiParameters 0xB 9) = Some (0xB, 9) \<and>
   invoke test_env (OnInstall 0xD (encodeAbiParameters 0xB 9)) demo_state
     = (Inl UnauthorizedPKP, demo_state) \<and>
   isModuleInstalled 0xD MODULE_TYPE
     (snd (invoke test_env (OnInstall 0xD (encodeAbiParameters 0xB 9)) demo_state)) = False"
proof -
  have v: "list_all valid_tx [OnInstall 0xA (encodeAbiParameters 0xB 7)]"
    by simp
  have i: "isInstalled (accountPKPs demo_state 0xA)"
    and p: "pkpEthAddress (accountPKPs demo_state 0xA) = 0xB"
    and n: "\<not> isInstalled (accountPKPs demo_state 0xD)"
    by (simp_all add: demo_state_eq zeroPKPInfo_def)
  have d: "(0xA :: address) \<noteq> 0xD"
    by simp
  have a: "abi_decode (encodeAbiParameters 0xB 9) = Some (0xB, 9)"
    by (rule abi_decode_encodeAbiParameters)
  show ?thesis
    using v i p n d a claimed_signer_rejected [OF v demo_state_def i p d n a]
    by (auto simp del: invoke.simps)
qed

section \<open>Execution without a registration\<close>

text \<open>
  Claim C5, as the specification states it, does not hold for a re-entrant invocation:
  the modifier \<^verbatim>\<open>nonReentrant\<close> runs before the body. During a forwarded call of the
  account \<open>0xA\<close> the flag is \<open>ENTERED\<close>; the account \<open>0xD\<close>, which has no registration,
  calls \<^verbatim>\<open>executeFromExecutor\<close> and the call fails with
  \<^verbatim>\<open>ReentrancyGuardReentrantCall\<close>, not with \<^verbatim>\<open>ModuleNotInstalled\<close>. The last
  line runs this inside a transaction of \<open>0xA\<close>: the forwarded call \<open>reentrant_probe\<close>
  succeeds, so the call back of \<open>0xD\<close> has failed with the guard's error.
\<close>

theorem reentrant_uninstalled_caller_not_NotInstalled:
  "\<not> isInstalled (accountPKPs (demo_state\<lparr>status := ENTERED\<rparr>) 0xD) \<and>
   fst (message_call
          (executeFromExecutor test_env (forwarded test_env (Finish True [])) 0xD 0xC 0 [] [])
          (demo_state\<lparr>status := ENTERED\<rparr>))
     = Inl ReentrancyGuardReentrantCall \<and>
   fst (message_call
          (executeFromExecutor test_env (forwarded test_env (Finish True [])) 0xD 0xC 0 [] [])
          (demo_state\<lparr>status := ENTERED\<rparr>))
     \<noteq> Inl ModuleNotInstalled \<and>
   fst (executeFromExecutor test_env reentrant_probe 0xA 0xC 0 [] (test_signature 0xB)
          demo_state) = Inr []"
  by (simp add: demo_state_eq zeroPKPInfo_def message_call_def executeFromExecutor_def
      Let_def recover_test_signature reentrant_probe_def)

text \<open>
  Claim C5, amended. For a caller with no registration, an invocation of
  \<^verbatim>\<open>executeFromExecutor\<close> that is not re-entrant fails with \<^verbatim>\<open>ModuleNotInstalled\<close>
  for every target, value, data and signature, every \<open>recover\<close> and every forwarded call:
  neither is consulted, no event is logged, and only the guard's flag has been written
  when it reverts. A re-entrant invocation fails with \<^verbatim>\<open>ReentrancyGuardReentrantCall\<close>.
  Every transaction begins with the flag \<open>NOT_ENTERED\<close>.
\<close>

theorem uninstalled_caller_NotInstalled:
  assumes "\<not> isInstalled (accountPKPs s sender)"
  shows "(status s = NOT_ENTERED \<longrightarrow>
            executeFromExecutor env call sender target val data pkpSignature s
              = (Inl ModuleNotInstalled, s\<lparr>status := ENTERED\<rparr>) \<and>
            message_call (executeFromExecutor env call sender target val data pkpSignature) s
              = (Inl ModuleNotInstalled, s)) \<and>
         (status s = ENTERED \<longrightarrow>
            executeFromExecutor env call sender target val data pkpSignature s
              = (Inl ReentrancyGuardReentrantCall, s)) \<and>
         status (transact env ts init_state) = NOT_ENTERED"
proof -
  have "status s \<noteq> ENTERED \<Longrightarrow> status s = NOT_ENTERED"
    by (cases "status s") simp_all
  then show ?thesis
    using assms
    by (auto simp: executeFromExecutor_def message_call_def Let_def status_transact
        init_state_def)
qed

theorem uninstalled_caller_NotInstalled_witness:
  "\<not> isInstalled (accountPKPs demo_state 0xD) \<and>
   status demo_state = NOT_ENTERED \<and>
   message_call
     (executeFromExecutor test_env (forwarded test_env (Finish True [])) 0xD 0xC 0 []
        (test_signature 0xB)) demo_state
     = (Inl ModuleNotInstalled, demo_state)"
proof -
  have n: "\<not> isInstalled (accountPKPs demo_state 0xD)"
    by (simp add: demo_state_eq zeroPKPInfo_def)
  have e: "status demo_state = NOT_ENTERED"
    by (simp add: demo_state_eq)
  show ?thesis
    using n e
      uninstalled_caller_NotInstalled [OF n, where env = test_env
        and call = "forwarded test_env (Finish True [])" and target = "0xC" and val = 0
        and data = "[]" and pkpSignature = "test_signature 0xB" and ts = "[]"]
    by simp
qed

section \<open>The order of the checks of an install\<close>

text \<open>
  Claim C6. An install whose data carries a signer address and a key id checks the
  registration of the caller first: a caller that is installed gets
  \<^verbatim>\<open>ModuleAlreadyInstalled\<close>, whether or not the signer is claimed; only a caller that
  is not installed is checked for the signer, and gets \<^verbatim>\<open>UnauthorizedPKP\<close> when it is
  claimed; otherwise the install succeeds. Each failure leaves the storage untouched.
\<close>

theorem install_checks_ordered:
  assumes "abi_decode data = Some (signer, keyId)"
  shows "(isInstalled (accountPKPs s sender) \<longrightarrow>
            onInstall sender data s = (Inl ModuleAlreadyInstalled, s)) \<and>
         (\<not> isInstalled (accountPKPs s sender) \<and> pkpToAccount s signer \<noteq> 0 \<longrightarrow>
            onInstall sender data s = (Inl UnauthorizedPKP, s)) \<and>
         (\<not> isInstalled (accountPKPs s sender) \<and> pkpToAccount s signer = 0 \<longrightarrow>
            fst (onInstall sender data s) = Inr ())"
  using assms by (simp add: onInstall_def)

theorem install_checks_ordered_witness:
  "abi_decode (encodeAbiParameters 0xF 5) = Some (0xF, 5) \<and>
   isInstalled (accountPKPs (transact test_env demo_txs init_state) 0xA) \<and>
   pkpToAccount (transact test_env demo_txs init_state) 0xF \<noteq> 0 \<and>
   onInstall 0xA (encodeAbiParameters 0xF 5) (transact test_env demo_txs init_state)
     = (Inl ModuleAlreadyInstalled, transact test_env demo_txs init_state) \<and>
   \<not> isInstalled (accountPKPs (transact test_env demo_txs init_state) 0xC) \<and>
   onInstall 0xC (encodeAbiParameters 0xF 5) (transact test_env demo_txs init_state)
     = (Inl UnauthorizedPKP, transact test_env demo_txs init_state)"
proof -
  have a: "abi_decode (encodeAbiParameters 0xF 5) = Some (0xF, 5)"
    by (rule abi_decode_encodeAbiParameters)
  have i: "isInstalled (accountPKPs (transact test_env demo_txs init_state) 0xA)"
    and c: "pkpToAccount (transact test_env demo_txs init_state) 0xF \<noteq> 0"
    and n: "\<not> isInstalled (accountPKPs (transact test_env demo_txs init_state) 0xC)"
    by (simp_all add: transact_demo_txs zeroPKPInfo_def)
  show ?thesis
    using a i c n
      install_checks_ordered [OF a, of "transact test_env demo_txs init_state" "0xA"]
      install_checks_ordered [OF a, of "transact test_env demo_txs init_state" "0xC"]
    by simp
qed

section \<open>Failures change nothing\<close>

lemma registry_executeFromExecutor_failed:
  assumes "fst (executeFromExecutor env (forwarded env c) sender target val data pkpSignature s)
             = Inl e"
  shows "accountPKPs (snd (executeFromExecutor env (forwarded env c) sender target val data
            pkpSignature s)) = accountPKPs s \<and>
         pkpToAccount (snd (executeFromExecutor env (forwarded env c) sender target val data
            pkpSignature s)) = pkpToAccount s"
  using assms
  by (auto simp: executeFromExecutor_def Let_def forwarded_def low_level_call_def
      split: if_splits sum.splits prod.splits)

lemma invoke_failed:
  "fst (invoke env t s) = Inl e \<Longrightarrow> snd (invoke env t s) = s"
  by (cases t) (auto simp: message_call_def split: sum.splits prod.splits)

text \<open>
  Claim C7. A failing transaction on any of the three entry points leaves the whole
  storage, and so both mappings, as it was. The code itself writes neither mapping before
  it reverts: \<^verbatim>\<open>onInstall\<close> and \<^verbatim>\<open>onUninstall\<close> revert with the storage untouched,
  and when \<^verbatim>\<open>executeFromExecutor\<close> reverts, also after a forwarded call that failed,
  the two mappings are those it began with. After a successful install, a second install
  by the same account, with the same or another signer, fails with
  \<^verbatim>\<open>ModuleAlreadyInstalled\<close> and the storage is the one the first install left.
\<close>

theorem failure_leaves_registry:
  "(fst (invoke env t s) = Inl e \<longrightarrow> snd (invoke env t s) = s) \<and>
   (fst (onInstall sender data s) = Inl e \<longrightarrow> snd (onInstall sender data s) = s) \<and>
   (fst (onUninstall sender data s) = Inl e \<longrightarrow> snd (onUninstall sender data s) = s) \<and>
   (fst (executeFromExecutor env (forwarded env c) sender target val data pkpSignature s)
      = Inl e \<longrightarrow>
    accountPKPs (snd (executeFromExecutor env (forwarded env c) sender target val data
       pkpSignature s)) = accountPKPs s \<and>
    pkpToAccount (snd (executeFromExecutor env (forwarded env c) sender target val data
       pkpSignature s)) = pkpToAccount s) \<and>
   (onInstall sender data s = (Inr (), s1) \<and> abi_decode data' = Some (signer', keyId') \<longrightarrow>
    invoke env (OnInstall sender data') s1 = (Inl ModuleAlreadyInstalled, s1))"
proof -
  have i: "fst (onInstall sender data s) = Inl e \<longrightarrow> snd (onInstall sender data s) = s"
    by (auto simp: onInstall_def split: option.splits if_splits)
  have u: "fst (onUninstall sender data s) = Inl e \<longrightarrow> snd (onUninstall sender data s) = s"
    by (auto simp: onUninstall_def Let_def split: if_splits)
  have twice: "onInstall sender data s = (Inr (), s1) \<and> abi_decode data' = Some (signer', keyId')
      \<longrightarrow> invoke env (OnInstall sender data') s1 = (Inl ModuleAlreadyInstalled, s1)"
    by (auto simp: onInstall_def message_call_def split: option.splits if_splits)
  show ?thesis
    using i u twice invoke_failed [of env t s e]
      registry_executeFromExecutor_failed [of env c sender target val data pkpSignature s e]
    by blast
qed


theorem failure_leaves_registry_witness:
  "fst (invoke test_env (OnInstall 0xA (encodeAbiParameters 0xF 5)) demo_state)
     = Inl ModuleAlreadyInstalled \<and>
   snd (invoke test_env (OnInstall 0xA (encodeAbiParameters 0xF 5)) demo_state) = demo_state \<and>
   fst (onUninstall 0xD [] demo_state) = Inl ModuleNotInstalled \<and>
   snd (onUninstall 0xD [] demo_state) = demo_state \<and>
   fst (executeFromExecutor test_env
          (forwarded test_env
             (CallOnInstall 0xD (encodeAbiParameters 0xF 9) (Finish False []) (Finish False [])))
          0xA 0xC 0 [] (test_signature 0xB) demo_state) = Inl ExecutionFailed \<and>
   accountPKPs (snd (executeFromExecutor test_env
          (forwarded test_env
             (CallOnInstall 0xD (encodeAbiParameters 0xF 9) (Finish False []) (Finish False [])))
          0xA 0xC 0 [] (test_signature 0xB) demo_state)) = accountPKPs demo_state \<and>
   pkpToAccount (snd (executeFromExecutor test_env
          (forwarded test_env
             (CallOnInstall 0xD (encodeAbiParameters 0xF 9) (Finish False []) (Finish False [])))
          0xA 0xC 0 [] (test_signature 0xB) demo_state)) = pkpToAccount demo_state"
proof -
  have i: "fst (invoke test_env (OnInstall 0xA (encodeAbiParameters 0xF 5)) demo_state)
     = Inl ModuleAlreadyInstalled"
    by (simp add: demo_state_eq message_call_def onInstall_def abi_decode_encodeAbiParameters)
  have u: "fst (onUninstall 0xD [] demo_state) = Inl ModuleNotInstalled"
    by (simp add: demo_state_eq onUninstall_def zeroPKPInfo_def)
  have x: "fst (executeFromExecutor test_env
          (forwarded test_env
             (CallOnInstall 0xD (encodeAbiParameters 0xF 9) (Finish False []) (Finish False [])))
          0xA 0xC 0 [] (test_signature 0xB) demo_state) = Inl ExecutionFailed"
    by (simp add: demo_state_eq executeFromExecutor_def Let_def recover_test_signature
        forwarded_def low_level_call_def message_call_def onInstall_def
        abi_decode_encodeAbiParameters zeroPKPInfo_def)
  show ?thesis
    using i u x
      failure_leaves_registry [where env = test_env
        and t = "OnInstall 0xA (encodeAbiParameters 0xF 5)" and s = demo_state
        and e = ModuleAlreadyInstalled]
      failure_leaves_registry [where sender = "0xD" and data = "[]" and s = demo_state
        and e = ModuleNotInstalled]
      failure_leaves_registry [where env = test_env
        and c = "CallOnInstall 0xD (encodeAbiParameters 0xF 9) (Finish False []) (Finish False [])"
        and sender = "0xA" and target = "0xC" and val = 0 and data = "[]"
        and pkpSignature = "test_signature 0xB" and s = demo_state and e = ExecutionFailed]
    by (auto simp del: invoke.simps)
qed

section \<open>Uninstalling\<close>

text \<open>
  Claim C8. After a successful install of \<open>A\<close> with the signer \<open>S\<close>, the uninstall of \<open>A\<close>
  succeeds and clears both mappings: \<^verbatim>\<open>getPKPInfo(A)\<close> is the zero record, \<open>S\<close> is
  claimed by no account, and an install with \<open>S\<close> by any account that has no
  registration succeeds and registers it.
\<close>

theorem uninstall_clears_both_indices:
  assumes dec: "abi_decode data = Some (S, k)"
    and inst: "onInstall A data s = (Inr (), s1)"
    and s2: "s2 = snd (onUninstall A data' s1)"
  shows "fst (onUninstall A data' s1) = Inr () \<and>
         getPKPInfo A s2 = (0, 0, False) \<and>
         pkpToAccount s2 S = 0 \<and>
         (\<forall>B dataB kB.
            \<not> isInstalled (accountPKPs s2 B) \<and> abi_decode dataB = Some (S, kB) \<longrightarrow>
            fst (onInstall B dataB s2) = Inr () \<and>
            getPKPInfo B (snd (onInstall B dataB s2)) = (S, kB, True) \<and>
            pkpToAccount (snd (onInstall B dataB s2)) S = B)"
proof -
  have s1: "s1 = s\<lparr>accountPKPs := (accountPKPs s)(A :=
                 \<lparr>pkpEthAddress = S, pkpTokenId = k, isInstalled = True\<rparr>),
               pkpToAccount := (pkpToAccount s)(S := A),
               events := events s @ [ModuleInstalled A S k]\<rparr>"
    using dec inst by (auto simp: onInstall_def split: if_splits)
  have u: "onUninstall A data' s1 =
     (Inr (), s1\<lparr>accountPKPs := (accountPKPs s1)(A := zeroPKPInfo),
                 pkpToAccount := (pkpToAccount s1)(S := 0),
                 events := events s1 @ [ModuleUninstalled A S]\<rparr>)"
    by (simp add: s1 onUninstall_def Let_def)
  have free: "pkpToAccount s2 S = 0"
    by (simp add: s2 u)
  have info: "getPKPInfo A s2 = (0, 0, False)"
    by (simp add: s2 u getPKPInfo_def zeroPKPInfo_def)
  show ?thesis
    using free info by (auto simp: u onInstall_def getPKPInfo_def)
qed

theorem uninstall_clears_both_indices_witness:
  "abi_decode (encodeAbiParameters 0xB 7) = Some (0xB, 7) \<and>
   fst (onInstall 0xA (encodeAbiParameters 0xB 7) init_state) = Inr () \<and>
   fst (onUninstall 0xA [] (snd (onInstall 0xA (encodeAbiParameters 0xB 7) init_state)))
     = Inr () \<and>
   getPKPInfo 0xA
     (snd (onUninstall 0xA [] (snd (onInstall 0xA (encodeAbiParameters 0xB 7) init_state))))
     = (0, 0, False) \<and>
   fst (onInstall 0xD (encodeAbiParameters 0xB 9)
     (snd (onUninstall 0xA [] (snd (onInstall 0xA (encodeAbiParameters 0xB 7) init_state)))))
     = Inr ()"
proof -
  let ?s1 = "snd (onInstall 0xA (encodeAbiParameters 0xB 7) init_state)"
  let ?s2 = "snd (onUninstall 0xA [] ?s1)"
  have a: "abi_decode (encodeAbiParameters 0xB 7) = Some (0xB, 7)"
    by (rule abi_decode_encodeAbiParameters)
  have b: "abi_decode (encodeAbiParameters 0xB 9) = Some (0xB, 9)"
    by (rule abi_decode_encodeAbiParameters)
  have i: "fst (onInstall 0xA (encodeAbiParameters 0xB 7) init_state) = Inr ()"
    by (simp add: onInstall_def a init_state_def zeroPKPInfo_def)
  then have i': "onInstall 0xA (encodeAbiParameters 0xB 7) init_state = (Inr (), ?s1)"
    by (simp add: prod_eq_iff)
  have n: "\<not> isInstalled (accountPKPs ?s2 0xD)"
    by (simp add: onUninstall_def onInstall_def a init_state_def zeroPKPInfo_def)
  show ?thesis
    using a b i n uninstall_clears_both_indices [OF a i' refl, of "[]"]
    by simp
qed

section \<open>The view isModuleInstalled\<close>

text \<open>
  Claim C9. \<^verbatim>\<open>isModuleInstalled\<close> is false for every type id other than 2, the
  constant \<^verbatim>\<open>MODULE_TYPE\<close>, and is the \<^verbatim>\<open>isInstalled\<close> flag of the account for the
  type id 2. It is a \<^verbatim>\<open>view\<close> with no revert in it: a function of the storage that
  returns a truth value and nothing else.
\<close>

theorem isModuleInstalled_value:
  "isModuleInstalled account moduleTypeId s
     = (if moduleTypeId \<noteq> 2 then False else isInstalled (accountPKPs s account)) \<and>
   MODULE_TYPE = 2"
  by (simp add: isModuleInstalled_def MODULE_TYPE_def)

section \<open>The invariant of the registry\<close>

text \<open>
  Claim C10. In every storage reached from the initial one by transactions, the two
  mappings agree: an installed account is the one its signer maps to; a signer that maps
  to an account other than zero maps to an installed account that records this signer;
  hence two installed accounts with the same signer are one account.
\<close>

theorem registry_consistent:
  assumes valid: "list_all valid_tx ts"
    and s: "s = transact env ts init_state"
  shows "(\<forall>A. isInstalled (accountPKPs s A) \<longrightarrow>
            pkpToAccount s (pkpEthAddress (accountPKPs s A)) = A) \<and>
         (\<forall>S A. pkpToAccount s S = A \<and> A \<noteq> 0 \<longrightarrow>
            isInstalled (accountPKPs s A) \<and> pkpEthAddress (accountPKPs s A) = S) \<and>
         (\<forall>A B. isInstalled (accountPKPs s A) \<and> isInstalled (accountPKPs s B) \<and>
            pkpEthAddress (accountPKPs s A) = pkpEthAddress (accountPKPs s B) \<longrightarrow> A = B)"
proof -
  have c: "consistent s"
    using valid s by (simp add: consistent_reachable)
  have fwd: "\<forall>A. isInstalled (accountPKPs s A) \<longrightarrow>
            pkpToAccount s (pkpEthAddress (accountPKPs s A)) = A"
    using c by (simp add: consistent_def)
  have bwd: "\<forall>S A. pkpToAccount s S = A \<and> A \<noteq> 0 \<longrightarrow>
            isInstalled (accountPKPs s A) \<and> pkpEthAddress (accountPKPs s A) = S"
    using c by (auto simp: consistent_def)
  have uniq: "\<forall>A B. isInstalled (accountPKPs s A) \<and> isInstalled (accountPKPs s B) \<and>
            pkpEthAddress (accountPKPs s A) = pkpEthAddress (accountPKPs s B) \<longrightarrow> A = B"
    using fwd by metis
  show ?thesis
    using fwd bwd uniq by blast
qed

theorem registry_consistent_witness:
  "list_all valid_tx (demo_txs @ [demo_swap]) \<and>
   isInstalled (accountPKPs (transact test_env (demo_txs @ [demo_swap]) init_state) 0x11) \<and>
   pkpEthAddress (accountPKPs (transact test_env (demo_txs @ [demo_swap]) init_state) 0x11)
     = 0xF \<and>
   pkpToAccount (transact test_env (demo_txs @ [demo_swap]) init_state) 0xF = 0x11 \<and>
   pkpToAccount (transact test_env (demo_txs @ [demo_swap]) init_state) 0xB = 0xA \<and>
   isInstalled (accountPKPs (transact test_env (demo_txs @ [demo_swap]) init_state) 0xA) \<and>
   pkpEthAddress (accountPKPs (transact test_env (demo_txs @ [demo_swap]) init_state) 0xA)
     = 0xB"
proof -
  let ?s = "transact test_env (demo_txs @ [demo_swap]) init_state"
  have v: "list_all valid_tx (demo_txs @ [demo_swap])"
    by (simp add: demo_txs_def demo_swap_def)
  have i: "isInstalled (accountPKPs ?s 0x11)"
    and p: "pkpEthAddress (accountPKPs ?s 0x11) = 0xF"
    and q: "pkpToAccount ?s 0xB = 0xA"
    by (simp_all add: transact_demo_swap)
  have z: "(0xA :: address) \<noteq> 0"
    by simp
  show ?thesis
    using v i p q z registry_consistent [OF v refl, of test_env]
    by metis
qed

end
